theory Spec2Isabelle
  imports Complex_Main
begin

section \<open>Fixed-point decimals\<close>

text \<open>
  Every amount of the ledger is a \<^verbatim>\<open>DecimalField(decimal_places=2)\<close>: it is modelled
  by the integer number of hundredths it holds (1234.56 is 123456). The interest rate, also
  a two-place decimal, is held the same way (10.00 percent is 1000). Integer columns are
  Python's unbounded integers. The widths of the columns (\<^verbatim>\<open>max_digits\<close>, the range
  of an integer column) are what the field validators below check; the arithmetic itself
  is exact, the 28 digit precision of the decimal context being taken as never reached.

  \<^verbatim>\<open>x.quantize(Decimal('0.01'), rounding=ROUND_HALF_UP)\<close> rounds to the nearest hundredth,
  ties away from zero. \<open>round_half_up n d\<close> is that rounding of the exact quotient
  \<open>n / d\<close> (for \<open>0 < d\<close>), the result counted in hundredths when \<open>n / d\<close> is.
\<close>

definition round_half_up :: "int \<Rightarrow> int \<Rightarrow> int" where
  "round_half_up n d =
     (if 0 \<le> n then (2 * n + d) div (2 * d) else - ((2 * (- n) + d) div (2 * d)))"

text \<open>Quantizing a value that already is a number of hundredths.\<close>

definition quantize_cents :: "int \<Rightarrow> int" where
  "quantize_cents c = round_half_up c 1"

datatype error =
    LoanInactive            \<comment> \<open>"Cannot make payment on inactive loan"\<close>
  | NoRemainingBalance      \<comment> \<open>"Loan has no remaining balance"\<close>
  | AmountExceedsBalance    \<comment> \<open>"Payment amount ... exceeds remaining balance ..."\<close>
  | AllInstallmentsPaid     \<comment> \<open>"All EMIs have already been paid"\<close>
  | EmiAmountMismatch       \<comment> \<open>"EMI payment must be exactly the monthly EMI amount ..."\<close>
  | InvalidAmount           \<comment> \<open>the amount field's \<^verbatim>\<open>min_value=Decimal('0.01')\<close>\<close>
  | LoanNotFound            \<comment> \<open>"Loan not found"\<close>
  | CustomerNotFound        \<comment> \<open>"Customer does not exist."\<close>
  | PrincipalNotPositive    \<comment> \<open>"Principal amount must be positive"\<close>
  | PeriodNotPositive       \<comment> \<open>"Loan period must be positive"\<close>
  | RateNegative            \<comment> \<open>"Interest rate cannot be negative"\<close>
  | TypeError               \<comment> \<open>an ordering comparison or \<^verbatim>\<open>min\<close> with \<^verbatim>\<open>None\<close>\<close>
  | IntegrityError          \<comment> \<open>\<^verbatim>\<open>None\<close> stored into a column that is not nullable\<close>
  | DivisionByZero          \<comment> \<open>\<^verbatim>\<open>//\<close> by a zero decimal\<close>
  | MaxDigits               \<comment> \<open>a decimal field: more digits than \<^verbatim>\<open>max_digits\<close> allows\<close>
  | IntegerRange            \<comment> \<open>an integer field: outside the range of the column\<close>
  | MaxLength               \<comment> \<open>a character field: longer than \<^verbatim>\<open>max_length\<close>\<close>
  | Blank                   \<comment> \<open>a character field: empty\<close>
  | ValidationError "(string \<times> error) list"
      \<comment> \<open>the errors of a validation that collects them, each under the name of its field
         (\<^verbatim>\<open>__all__\<close> for the error of \<^verbatim>\<open>clean\<close>)\<close>

text \<open>
  \<^verbatim>\<open>a // b\<close> on decimals is the quotient truncated towards zero; it raises when
  \<open>b\<close> is zero. Both operands are numbers of hundredths, so the quotient of the
  amounts is the quotient of the integers.
\<close>

definition decimal_floordiv :: "int \<Rightarrow> int \<Rightarrow> error + int" where
  "decimal_floordiv a b =
     (if b = 0 then Inl DivisionByZero else Inr (sgn a * sgn b * (\<bar>a\<bar> div \<bar>b\<bar>)))"

subsection \<open>Field validators\<close>

text \<open>
  A value of a field \<^verbatim>\<open>DecimalField(max_digits=m, decimal_places=2)\<close> passes the
  validator of the field when it has at most \<open>m - 2\<close> digits before the decimal point:
  as a number of hundredths, when its absolute value is below \<open>10 ^ m\<close>.
\<close>

definition decimal_fits :: "nat \<Rightarrow> int \<Rightarrow> bool" where
  "decimal_fits m x \<longleftrightarrow> \<bar>x\<bar> < 10 ^ m"

text \<open>
  The range an \<^verbatim>\<open>IntegerField\<close> of a model validates against is that of the column
  of the database backend. The settings that choose the backend are not among the sources;
  the range taken here is the 32 bit one the framework gives by default.
\<close>

definition integer_field_min :: int where
  "integer_field_min = - 2147483648"

definition integer_field_max :: int where
  "integer_field_max = 2147483647"

definition integer_fits :: "int \<Rightarrow> bool" where
  "integer_fits n \<longleftrightarrow> integer_field_min \<le> n \<and> n \<le> integer_field_max"

text \<open>
  The entry a field contributes to the collected errors; a field declared
  \<^verbatim>\<open>blank=True\<close> is not validated while it is \<^verbatim>\<open>None\<close>.
\<close>

definition field_error :: "string \<Rightarrow> bool \<Rightarrow> error \<Rightarrow> (string \<times> error) list" where
  "field_error f ok e = (if ok then [] else [(f, e)])"

definition blank_field_error ::
  "string \<Rightarrow> int option \<Rightarrow> (int \<Rightarrow> bool) \<Rightarrow> error \<Rightarrow> (string \<times> error) list" where
  "blank_field_error f v ok e = (case v of None \<Rightarrow> [] | Some x \<Rightarrow> field_error f (ok x) e)"

section \<open>The data model (models.py)\<close>

type_synonym uuid = nat

datatype loan_status = ACTIVE | COMPLETED | DEFAULTED

datatype payment_type = EMI | LUMP_SUM

record customer =
  name :: string
  email :: string
  phone :: "string option"

text \<open>
  The fields declared \<^verbatim>\<open>null=True\<close> are options. The time stamps
  (\<^verbatim>\<open>auto_now_add\<close>) are left out. The key of a loan is its key in the table
  of loans below.
\<close>

record loan =
  customer :: string
  principal_amount :: int
  loan_period_years :: int
  interest_rate :: int
  total_interest :: "int option"
  total_amount :: "int option"
  monthly_emi :: "int option"
  amount_paid :: int
  remaining_balance :: "int option"
  total_emis :: "int option"
  emis_paid :: int
  loan_status :: loan_status

text \<open>
  \<open>payment_id\<close> is what \<^verbatim>\<open>self.pk\<close> reads; \<open>payment_loan\<close> is the
  foreign key \<^verbatim>\<open>loan\<close>.
\<close>

record payment =
  payment_id :: "uuid option"
  payment_loan :: uuid
  payment_type :: payment_type
  amount :: int
  balance_after_payment :: int

subsection \<open>Loan.clean\<close>

text \<open>
  The tests \<^verbatim>\<open>self.principal_amount and ...\<close> and
  \<^verbatim>\<open>self.loan_period_years and ...\<close> first take the truth value of the number:
  zero is false in Python, and the comparison that follows is not evaluated.
\<close>

definition Loan_clean :: "loan \<Rightarrow> error + unit" where
  "Loan_clean l =
     (if principal_amount l \<noteq> 0 \<and> principal_amount l \<le> 0 then Inl PrincipalNotPositive
      else if loan_period_years l \<noteq> 0 \<and> loan_period_years l \<le> 0 then Inl PeriodNotPositive
      else if interest_rate l < 0 then Inl RateNegative
      else Inr ())"

subsection \<open>Loan.save\<close>

text \<open>
  The block that computes the derived fields. \<open>P * N * R / 100\<close> with \<open>P\<close> and \<open>R\<close>
  in hundredths is the product of the three integers over \<open>10 ^ 6\<close>, that is over
  \<open>10 ^ 4\<close> when counted in hundredths.
\<close>

definition Loan_calculate :: "loan \<Rightarrow> loan" where
  "Loan_calculate l =
     (let ti = round_half_up (principal_amount l * loan_period_years l * interest_rate l) 10000;
          ta = quantize_cents (principal_amount l + ti);
          te = loan_period_years l * 12;
          me = (if te > 0 then round_half_up ta te else ta)
      in l\<lparr>total_interest := Some ti, total_amount := Some ta, total_emis := Some te,
            monthly_emi := Some me,
            remaining_balance :=
              (case remaining_balance l of None \<Rightarrow> Some ta | Some rb \<Rightarrow> Some rb)\<rparr>)"

text \<open>
  \<^verbatim>\<open>full_clean\<close> runs the validators of the declared fields, in the order of
  their declaration, then \<^verbatim>\<open>clean\<close>, and raises one error that holds all the
  failures, if there are any. The status is one of the declared choices by its type; the
  key of the new loan is taken to be fresh.
\<close>

definition Loan_clean_fields :: "loan \<Rightarrow> (string \<times> error) list" where
  "Loan_clean_fields l =
     field_error ''principal_amount'' (decimal_fits 12 (principal_amount l)) MaxDigits @
     field_error ''loan_period_years'' (integer_fits (loan_period_years l)) IntegerRange @
     field_error ''interest_rate'' (decimal_fits 5 (interest_rate l)) MaxDigits @
     blank_field_error ''total_interest'' (total_interest l) (decimal_fits 12) MaxDigits @
     blank_field_error ''total_amount'' (total_amount l) (decimal_fits 12) MaxDigits @
     blank_field_error ''monthly_emi'' (monthly_emi l) (decimal_fits 12) MaxDigits @
     field_error ''amount_paid'' (decimal_fits 12 (amount_paid l)) MaxDigits @
     blank_field_error ''remaining_balance'' (remaining_balance l) (decimal_fits 12) MaxDigits @
     blank_field_error ''total_emis'' (total_emis l) integer_fits IntegerRange @
     field_error ''emis_paid'' (integer_fits (emis_paid l)) IntegerRange"

definition Loan_full_clean :: "loan \<Rightarrow> error + unit" where
  "Loan_full_clean l =
     (case Loan_clean_fields l @
           (case Loan_clean l of Inl e \<Rightarrow> [(''__all__'', e)] | Inr _ \<Rightarrow> []) of
        [] \<Rightarrow> Inr ()
      | e # es \<Rightarrow> Inl (ValidationError (e # es)))"

text \<open>
  \<open>Loan_save skip l\<close> returns the row that is written, or the error of
  \<^verbatim>\<open>full_clean\<close>; \<open>skip\<close> is the presence of the attribute
  \<^verbatim>\<open>_skip_validation\<close>.
\<close>

definition Loan_save :: "bool \<Rightarrow> loan \<Rightarrow> error + loan" where
  "Loan_save skip l =
     (let l1 = (if total_amount l = None \<or> total_interest l = None then Loan_calculate l else l)
      in if skip then Inr l1
         else (case Loan_full_clean l1 of Inl e \<Rightarrow> Inl e | Inr _ \<Rightarrow> Inr l1))"

text \<open>The property \<^verbatim>\<open>emis_remaining\<close>.\<close>

definition emis_remaining :: "loan \<Rightarrow> error + int" where
  "emis_remaining l =
     (case total_emis l of None \<Rightarrow> Inl TypeError | Some te \<Rightarrow> Inr (max 0 (te - emis_paid l)))"

subsection \<open>Payment.save\<close>

text \<open>
  The branch on the payment type (lines 137 to 149): the new value of
  \<^verbatim>\<open>loan.emis_paid\<close>, or the error raised.
\<close>

definition emis_after :: "loan \<Rightarrow> payment \<Rightarrow> error + int" where
  "emis_after lo p =
     (if payment_type p = EMI then
        (if Some (amount p) \<noteq> monthly_emi lo then Inl EmiAmountMismatch
         else (case total_emis lo of
                 None \<Rightarrow> Inl TypeError
               | Some te \<Rightarrow> Inr (min (emis_paid lo + 1) te)))
      else
        (case monthly_emi lo of
           None \<Rightarrow> Inl TypeError
         | Some me \<Rightarrow>
             if me > 0 then
               (case decimal_floordiv (amount p) me of
                  Inl e \<Rightarrow> Inl e
                | Inr emis_covered \<Rightarrow>
                    (case total_emis lo of
                       None \<Rightarrow> Inl TypeError
                     | Some te \<Rightarrow> Inr (min (emis_paid lo + emis_covered) te)))
             else Inr (emis_paid lo)))"

text \<open>
  \<open>Payment_save lo p\<close> is \<^verbatim>\<open>p.save()\<close> with \<open>lo\<close> the loan the payment
  refers to. It returns the loan row and the payment row as they stand in the tables
  afterwards, or the exception raised; nothing is written when it raises, since
  \<^verbatim>\<open>loan.save()\<close> is the last statement of the block. The block runs under
  \<^verbatim>\<open>if not self.pk\<close>; otherwise only the payment is written. The key the insertion
  gives a payment without one is not tracked.
\<close>

definition Payment_save :: "loan \<Rightarrow> payment \<Rightarrow> error + loan \<times> payment" where
  "Payment_save lo p =
     (if payment_id p \<noteq> None then Inr (lo, p)
      else if loan_status lo \<noteq> ACTIVE then Inl LoanInactive
      else
        (case remaining_balance lo of
           None \<Rightarrow> Inl TypeError
         | Some rb \<Rightarrow>
             if amount p > rb then Inl AmountExceedsBalance
             else
               (let ap = quantize_cents (amount_paid lo + amount p);
                    rb1 = quantize_cents (rb - amount p);
                    rb2 = (if rb1 < 0 then 0 else rb1)
                in case emis_after lo p of
                     Inl e \<Rightarrow> Inl e
                   | Inr ep \<Rightarrow>
                       (let completed = (rb2 \<le> 1);
                            st = (if completed then COMPLETED else loan_status lo);
                            rb3 = (if completed then 0 else rb2);
                            ep3 = (if completed then total_emis lo else Some ep)
                        in case ep3 of
                             None \<Rightarrow> Inl IntegrityError
                           | Some ep4 \<Rightarrow>
                               (case Loan_save True
                                       (lo\<lparr>amount_paid := ap, remaining_balance := Some rb3,
                                           emis_paid := ep4, loan_status := st\<rparr>) of
                                  Inl e \<Rightarrow> Inl e
                                | Inr lo' \<Rightarrow> Inr (lo', p\<lparr>balance_after_payment := rb3\<rparr>))))))"

section \<open>The request layer (serializers.py, views.py)\<close>

record db =
  customers :: "string \<rightharpoonup> customer"
  loans :: "uuid \<rightharpoonup> loan"
  payments :: "payment list"

record loan_request =
  req_customer_id :: string
  req_principal_amount :: int
  req_loan_period_years :: int
  req_interest_rate :: int

record payment_request =
  req_loan_id :: uuid
  req_payment_type :: payment_type
  req_amount :: int

datatype response =
    Created_201
  | Bad_Request_400 error
  | Not_Found_404 error
  | Server_Error_500 error

subsection \<open>LoanCreateSerializer and lend\_loan\<close>

text \<open>
  The request holds the fields as the serializer has parsed them (the customer id
  trimmed, its characters the elements of the string). \<^verbatim>\<open>is_valid\<close> validates each declared field, the customer id with
  \<^verbatim>\<open>validate_customer_id\<close> after its own checks, and holds the errors of all of
  them. The period is an integer field without bounds.
\<close>

definition LoanCreateSerializer_errors :: "db \<Rightarrow> loan_request \<Rightarrow> (string \<times> error) list" where
  "LoanCreateSerializer_errors d r =
     (if req_customer_id r = [] then [(''customer_id'', Blank)]
      else if length (req_customer_id r) > 50 then [(''customer_id'', MaxLength)]
      else if customers d (req_customer_id r) = None then [(''customer_id'', CustomerNotFound)]
      else []) @
     field_error ''principal_amount'' (decimal_fits 12 (req_principal_amount r)) MaxDigits @
     field_error ''interest_rate'' (decimal_fits 5 (req_interest_rate r)) MaxDigits"

definition LoanCreateSerializer_is_valid :: "db \<Rightarrow> loan_request \<Rightarrow> error + unit" where
  "LoanCreateSerializer_is_valid d r =
     (case LoanCreateSerializer_errors d r of
        [] \<Rightarrow> Inr ()
      | e # es \<Rightarrow> Inl (ValidationError (e # es)))"

text \<open>
  The instance \<^verbatim>\<open>Loan.objects.create\<close> builds from the four keyword arguments and the
  declared defaults.
\<close>

definition new_loan :: "loan_request \<Rightarrow> loan" where
  "new_loan r =
     \<lparr>customer = req_customer_id r,
      principal_amount = req_principal_amount r,
      loan_period_years = req_loan_period_years r,
      interest_rate = req_interest_rate r,
      total_interest = None, total_amount = None, monthly_emi = None,
      amount_paid = 0, remaining_balance = None, total_emis = None,
      emis_paid = 0, loan_status = ACTIVE\<rparr>"

text \<open>
  \<open>u\<close> is the key \<^verbatim>\<open>uuid.uuid4\<close> draws for the new loan. The response is built
  after the loan is stored and reads \<^verbatim>\<open>emis_remaining\<close>; an exception there is
  answered 500 like one of \<^verbatim>\<open>create\<close>, with the loan kept.
\<close>

definition lend_loan :: "db \<Rightarrow> uuid \<Rightarrow> loan_request \<Rightarrow> response \<times> db" where
  "lend_loan d u r =
     (case LoanCreateSerializer_is_valid d r of
        Inl e \<Rightarrow> (Bad_Request_400 e, d)
      | Inr _ \<Rightarrow>
          (case customers d (req_customer_id r) of
             None \<Rightarrow> (Not_Found_404 CustomerNotFound, d)
           | Some c \<Rightarrow>
               (case Loan_save False (new_loan r) of
                  Inl e \<Rightarrow> (Server_Error_500 e, d)
                | Inr l \<Rightarrow>
                    (case emis_remaining l of
                       Inl e \<Rightarrow> (Server_Error_500 e, d\<lparr>loans := (loans d)(u \<mapsto> l)\<rparr>)
                     | Inr _ \<Rightarrow> (Created_201, d\<lparr>loans := (loans d)(u \<mapsto> l)\<rparr>)))))"

subsection \<open>PaymentCreateSerializer and make\_payment\<close>

text \<open>The cross-field method \<^verbatim>\<open>validate\<close>.\<close>

definition PaymentCreateSerializer_validate :: "db \<Rightarrow> payment_request \<Rightarrow> error + unit" where
  "PaymentCreateSerializer_validate d r =
     (case loans d (req_loan_id r) of
        None \<Rightarrow> Inl LoanNotFound
      | Some lo \<Rightarrow>
          if loan_status lo \<noteq> ACTIVE then Inl LoanInactive
          else
            (case remaining_balance lo of
               None \<Rightarrow> Inl NoRemainingBalance
             | Some rb \<Rightarrow>
                 if rb \<le> 0 then Inl NoRemainingBalance
                 else if req_amount r > rb then Inl AmountExceedsBalance
                 else if req_payment_type r = EMI then
                   (case total_emis lo of
                      None \<Rightarrow> Inl TypeError
                    | Some te \<Rightarrow>
                        if emis_paid lo \<ge> te then Inl AllInstallmentsPaid else Inr ())
                 else Inr ()))"

text \<open>
  \<^verbatim>\<open>is_valid\<close> validates the declared fields first and calls
  \<^verbatim>\<open>validate\<close> only when all of them pass. The types of the request leave the
  amount as the one field that can fail: the field checks its digits
  (\<^verbatim>\<open>max_digits=12\<close>) when it reads the value, and then runs the validator of
  \<^verbatim>\<open>min_value\<close>.
\<close>

definition PaymentCreateSerializer_is_valid :: "db \<Rightarrow> payment_request \<Rightarrow> error + unit" where
  "PaymentCreateSerializer_is_valid d r =
     (if \<not> decimal_fits 12 (req_amount r) then Inl MaxDigits
      else if req_amount r < 1 then Inl InvalidAmount
      else PaymentCreateSerializer_validate d r)"

text \<open>
  The instance \<^verbatim>\<open>Payment.objects.create\<close> builds. The field
  \<^verbatim>\<open>payment_id\<close> is declared with \<^verbatim>\<open>default=uuid.uuid4\<close> (line 91), and a model
  instance takes the defaults of its fields when it is constructed: the key \<open>u\<close> is set
  before \<^verbatim>\<open>save\<close> runs.
\<close>

definition new_payment :: "uuid \<Rightarrow> payment_request \<Rightarrow> payment" where
  "new_payment u r =
     \<lparr>payment_id = Some u, payment_loan = req_loan_id r,
      payment_type = req_payment_type r, amount = req_amount r,
      balance_after_payment = 0\<rparr>"

text \<open>
  The response is built after the payment is created and reads
  \<^verbatim>\<open>emis_remaining\<close> of the loan; an exception there is answered 500 like one of
  \<^verbatim>\<open>create\<close>, with the rows kept as written.
\<close>

definition make_payment :: "db \<Rightarrow> uuid \<Rightarrow> payment_request \<Rightarrow> response \<times> db" where
  "make_payment d u r =
     (case PaymentCreateSerializer_is_valid d r of
        Inl e \<Rightarrow> ((if e = TypeError then Server_Error_500 e else Bad_Request_400 e), d)
      | Inr _ \<Rightarrow>
          (case loans d (req_loan_id r) of
             None \<Rightarrow> (Not_Found_404 LoanNotFound, d)
           | Some lo \<Rightarrow>
               (case Payment_save lo (new_payment u r) of
                  Inl e \<Rightarrow> (Server_Error_500 e, d)
                | Inr (lo', p') \<Rightarrow>
                    (case emis_remaining lo' of
                       Inl e \<Rightarrow>
                         (Server_Error_500 e,
                          d\<lparr>loans := (loans d)(req_loan_id r \<mapsto> lo'),
                             payments := payments d @ [p']\<rparr>)
                     | Inr _ \<Rightarrow>
                         (Created_201,
                          d\<lparr>loans := (loans d)(req_loan_id r \<mapsto> lo'),
                             payments := payments d @ [p']\<rparr>)))))"

section \<open>Notions of the specification\<close>

text \<open>
  The value in currency units of a number of hundredths, and the specification's
  \<open>round2\<close>: half-up rounding to two decimal places.
\<close>

definition cents :: "int \<Rightarrow> rat" where
  "cents c = of_int c / 100"

definition round2 :: "rat \<Rightarrow> rat" where
  "round2 x = of_int \<lfloor>x * 100 + 1 / 2\<rfloor> / 100"

text \<open>The ledger invariants of a loan whose derived fields are set.\<close>

definition ledger_balanced :: "loan \<Rightarrow> bool" where
  "ledger_balanced l =
     (case (remaining_balance l, total_amount l) of
        (Some rb, Some ta) \<Rightarrow> amount_paid l + rb = ta
      | _ \<Rightarrow> False)"

definition emis_in_range :: "loan \<Rightarrow> bool" where
  "emis_in_range l =
     (case total_emis l of
        Some te \<Rightarrow> 0 \<le> emis_paid l \<and> emis_paid l \<le> te
      | None \<Rightarrow> False)"

text \<open>The derived fields are set, as they are on every loan that \<open>lend_loan\<close> stores.\<close>

definition derived_set :: "loan \<Rightarrow> bool" where
  "derived_set l \<longleftrightarrow>
     total_interest l \<noteq> None \<and> total_amount l \<noteq> None \<and> monthly_emi l \<noteq> None \<and>
     remaining_balance l \<noteq> None \<and> total_emis l \<noteq> None"

text \<open>
  The specification's validator (section 4.2), following its words: the checks in its
  order, each paired with the error it names, the first failing one deciding. A check is
  given by the condition under which it fails.
\<close>

fun first_failure :: "(bool \<times> error) list \<Rightarrow> error + unit" where
  "first_failure [] = Inr ()"
| "first_failure ((fails, e) # cs) = (if fails then Inl e else first_failure cs)"

definition spec_checks :: "loan \<Rightarrow> payment_type \<Rightarrow> int \<Rightarrow> (bool \<times> error) list" where
  "spec_checks lo t a =
     [(loan_status lo \<noteq> ACTIVE, LoanInactive),
      (\<not> a > 0, InvalidAmount),
      (case remaining_balance lo of None \<Rightarrow> True | Some rb \<Rightarrow> \<not> a \<le> rb, AmountExceedsBalance),
      (t = EMI \<and> Some a \<noteq> monthly_emi lo, EmiAmountMismatch),
      (t = EMI \<and> (case total_emis lo of None \<Rightarrow> True | Some te \<Rightarrow> emis_paid lo \<ge> te),
         AllInstallmentsPaid)]"

text \<open>
  A loan as \<open>lend_loan\<close> stores it for a principal of 100.00 over one year at no
  interest, and a customer table that knows its owner.
\<close>

definition loan_100 :: loan where
  "loan_100 =
     \<lparr>customer = ''C1'', principal_amount = 10000, loan_period_years = 1, interest_rate = 0,
      total_interest = Some 0, total_amount = Some 10000, monthly_emi = Some 833,
      amount_paid = 0, remaining_balance = Some 10000, total_emis = Some 12,
      emis_paid = 0, loan_status = ACTIVE\<rparr>"

text \<open>A loan as stored for a principal of 0.05 over one year at no interest.\<close>

definition loan_5c :: loan where
  "loan_5c =
     \<lparr>customer = ''C1'', principal_amount = 5, loan_period_years = 1, interest_rate = 0,
      total_interest = Some 0, total_amount = Some 5, monthly_emi = Some 0,
      amount_paid = 0, remaining_balance = Some 5, total_emis = Some 12,
      emis_paid = 0, loan_status = ACTIVE\<rparr>"

text \<open>
  The loan of 100.00 after a lump sum of 100.00; after lump sums of 8.32 and 0.05, which
  count no instalment; and after a lump sum of 99.96, twelve instalments.
\<close>

definition loan_100_completed :: loan where
  "loan_100_completed =
     loan_100\<lparr>amount_paid := 10000, remaining_balance := Some 0, emis_paid := 12,
               loan_status := COMPLETED\<rparr>"

definition loan_100_part :: loan where
  "loan_100_part = loan_100\<lparr>amount_paid := 837, remaining_balance := Some 9163\<rparr>"

definition loan_100_counted :: loan where
  "loan_100_counted =
     loan_100\<lparr>amount_paid := 9996, remaining_balance := Some 4, emis_paid := 12\<rparr>"

definition db_0 :: db where
  "db_0 =
     \<lparr>customers = [''C1'' \<mapsto> \<lparr>name = ''A'', email = ''a@b.c'', phone = None\<rparr>],
      loans = Map.empty, payments = []\<rparr>"

definition db_with :: "loan \<Rightarrow> db" where
  "db_with lo = db_0\<lparr>loans := [7 \<mapsto> lo]\<rparr>"

definition pay :: "uuid option \<Rightarrow> payment_type \<Rightarrow> int \<Rightarrow> payment" where
  "pay k t a =
     \<lparr>payment_id = k, payment_loan = 7, payment_type = t, amount = a,
      balance_after_payment = 0\<rparr>"

section \<open>Properties\<close>

subsection \<open>Auxiliary facts\<close>

text \<open>Quantizing a number of hundredths changes nothing.\<close>

lemma round_half_up_one: "round_half_up c 1 = c"
  unfolding round_half_up_def by auto

lemma quantize_cents_id: "quantize_cents c = c"
  by (simp add: quantize_cents_def round_half_up_one)

text \<open>The specification's \<open>round2\<close> and the rounding on hundredths agree.\<close>

lemma round2_round_half_up:
  assumes "0 \<le> n" and "0 < d"
  shows "cents (round_half_up n d) = round2 (of_int n / of_int d / 100)"
proof -
  have "(of_int n / of_int d / 100) * 100 + 1 / 2 = (of_int (2 * n + d) / of_int (2 * d) :: rat)"
    using assms(2) by (simp add: field_simps)
  then have "\<lfloor>(of_int n / of_int d / 100 :: rat) * 100 + 1 / 2\<rfloor> = (2 * n + d) div (2 * d)"
    by (simp only: floor_divide_of_int_eq)
  with assms(1) show ?thesis
    by (simp add: cents_def round2_def round_half_up_def)
qed

lemma round2_cents: "round2 (cents c) = cents c"
proof -
  have "\<lfloor>(of_int c :: rat) + 1 / 2\<rfloor> = c" by linarith
  then show ?thesis by (simp add: round2_def cents_def)
qed

text \<open>Rounding a non-negative quotient gives a value between zero and the numerator.\<close>

lemma round_half_up_bounds:
  assumes "0 \<le> n" and "1 \<le> d"
  shows "0 \<le> round_half_up n d \<and> round_half_up n d \<le> n"
proof -
  from assms have "n \<le> d * n" by (simp add: mult_le_cancel_right1)
  with assms have "2 * n + d \<le> n * (2 * d) + (2 * d - 1)" by (simp add: algebra_simps)
  with assms have "(2 * n + d) div (2 * d) \<le> (n * (2 * d) + (2 * d - 1)) div (2 * d)"
    by (intro zdiv_mono1) simp_all
  also have "\<dots> = n" using assms by (simp add: div_pos_pos_trivial)
  finally have "(2 * n + d) div (2 * d) \<le> n" .
  moreover from assms have "0 \<le> (2 * n + d) div (2 * d)"
    by (simp add: pos_imp_zdiv_nonneg_iff)
  ultimately show ?thesis using assms(1) by (simp add: round_half_up_def)
qed

text \<open>\<^verbatim>\<open>full_clean\<close> passes when no field fails and \<^verbatim>\<open>clean\<close> passes.\<close>

lemma Loan_full_clean_Inr:
  "Loan_full_clean l = Inr v \<longleftrightarrow> Loan_clean_fields l = [] \<and> Loan_clean l = Inr ()"
  by (cases "Loan_clean_fields l"; cases "Loan_clean l") (simp_all add: Loan_full_clean_def)

lemma Loan_full_clean_Inl:
  "Loan_clean l = Inl e \<Longrightarrow> \<exists>es. Loan_full_clean l = Inl (ValidationError es)"
  by (cases "Loan_clean_fields l") (simp_all add: Loan_full_clean_def)

lemmas clean_defs = Loan_full_clean_def Loan_clean_fields_def Loan_clean_def field_error_def
  blank_field_error_def decimal_fits_def integer_fits_def integer_field_min_def
  integer_field_max_def emis_remaining_def

text \<open>
  \<open>Loan_save\<close> under the flag never fails; it leaves the running fields as they
  are, and the whole loan when its totals are set.
\<close>

lemma Loan_save_skip:
  "\<exists>l'. Loan_save True l = Inr l' \<and> amount_paid l' = amount_paid l \<and>
     emis_paid l' = emis_paid l \<and> loan_status l' = loan_status l \<and>
     (remaining_balance l \<noteq> None \<longrightarrow> remaining_balance l' = remaining_balance l) \<and>
     (total_amount l \<noteq> None \<and> total_interest l \<noteq> None \<longrightarrow> l' = l)"
  by (auto simp: Loan_save_def Loan_calculate_def Let_def)

text \<open>What a successful run of the new-payment branch has checked and written.\<close>

lemma Payment_save_with_pk:
  "payment_id p \<noteq> None \<Longrightarrow> Payment_save lo p = Inr (lo, p)"
  by (simp add: Payment_save_def)

lemma Payment_save_new_cases:
  assumes "payment_id p = None" and "Payment_save lo p = Inr (lo', p')"
    and "remaining_balance lo = Some rb"
  obtains ep ep' where
    "loan_status lo = ACTIVE" and "amount p \<le> rb" and "emis_after lo p = Inr ep"
    and "(if rb - amount p \<le> 1 then total_emis lo else Some ep) = Some ep'"
    and "Loan_save True
           (lo\<lparr>amount_paid := amount_paid lo + amount p,
               remaining_balance := Some (if rb - amount p \<le> 1 then 0 else rb - amount p),
               emis_paid := ep',
               loan_status := (if rb - amount p \<le> 1 then COMPLETED else ACTIVE)\<rparr>) = Inr lo'"
    and "p' = p\<lparr>balance_after_payment := (if rb - amount p \<le> 1 then 0 else rb - amount p)\<rparr>"
proof -
  from assms have st: "loan_status lo = ACTIVE" and le: "amount p \<le> rb"
    by (auto simp: Payment_save_def split: if_splits)
  from assms st le obtain ep where ep: "emis_after lo p = Inr ep"
    by (cases "emis_after lo p") (auto simp: Payment_save_def Let_def)
  show ?thesis
  proof (cases "rb - amount p \<le> 1")
    case True
    with assms st le ep obtain ep' where "total_emis lo = Some ep'"
      by (cases "total_emis lo") (auto simp: Payment_save_def Let_def quantize_cents_id)
    with assms st le ep True that [of ep ep'] show ?thesis
      by (auto simp: Payment_save_def Let_def quantize_cents_id split: sum.splits)
  next
    case False
    with assms st le ep that [of ep ep] show ?thesis
      by (auto simp: Payment_save_def Let_def quantize_cents_id split: sum.splits)
  qed
qed

lemma Payment_save_new_fields:
  assumes "payment_id p = None" and "Payment_save lo p = Inr (lo', p')"
    and "remaining_balance lo = Some rb"
  obtains ep ep' where
    "loan_status lo = ACTIVE" and "amount p \<le> rb" and "emis_after lo p = Inr ep"
    and "(if rb - amount p \<le> 1 then total_emis lo else Some ep) = Some ep'"
    and "amount_paid lo' = amount_paid lo + amount p"
    and "remaining_balance lo' = Some (if rb - amount p \<le> 1 then 0 else rb - amount p)"
    and "emis_paid lo' = ep'"
    and "loan_status lo' = (if rb - amount p \<le> 1 then COMPLETED else ACTIVE)"
    and "balance_after_payment p' = (if rb - amount p \<le> 1 then 0 else rb - amount p)"
    and "derived_set lo \<Longrightarrow> total_amount lo' = total_amount lo \<and> total_emis lo' = total_emis lo \<and>
           monthly_emi lo' = monthly_emi lo \<and> total_interest lo' = total_interest lo"
proof -
  from Payment_save_new_cases [OF assms] obtain ep ep' where
    a: "loan_status lo = ACTIVE" "amount p \<le> rb" "emis_after lo p = Inr ep"
       "(if rb - amount p \<le> 1 then total_emis lo else Some ep) = Some ep'"
    and sv: "Loan_save True
           (lo\<lparr>amount_paid := amount_paid lo + amount p,
               remaining_balance := Some (if rb - amount p \<le> 1 then 0 else rb - amount p),
               emis_paid := ep',
               loan_status := (if rb - amount p \<le> 1 then COMPLETED else ACTIVE)\<rparr>) = Inr lo'"
    and p': "p' = p\<lparr>balance_after_payment := (if rb - amount p \<le> 1 then 0 else rb - amount p)\<rparr>"
    by blast
  define l1 where "l1 = lo\<lparr>amount_paid := amount_paid lo + amount p,
               remaining_balance := Some (if rb - amount p \<le> 1 then 0 else rb - amount p),
               emis_paid := ep',
               loan_status := (if rb - amount p \<le> 1 then COMPLETED else ACTIVE)\<rparr>"
  from Loan_save_skip [of l1] sv have
    f: "amount_paid lo' = amount_paid l1" "emis_paid lo' = emis_paid l1"
       "loan_status lo' = loan_status l1" "remaining_balance lo' = remaining_balance l1"
    and g: "total_amount l1 \<noteq> None \<and> total_interest l1 \<noteq> None \<longrightarrow> lo' = l1"
    unfolding l1_def by auto
  have h: "total_amount lo' = total_amount lo \<and> total_emis lo' = total_emis lo \<and>
           monthly_emi lo' = monthly_emi lo \<and> total_interest lo' = total_interest lo"
    if "derived_set lo"
  proof -
    from that have "lo' = l1" using g by (simp add: derived_set_def l1_def)
    then show ?thesis by (simp add: l1_def)
  qed
  show ?thesis
    by (rule that [OF a]) (use f p' h in \<open>simp_all add: l1_def\<close>)
qed

text \<open>The branch on the payment type for a lump sum.\<close>

lemma decimal_floordiv_nonneg:
  "0 \<le> a \<Longrightarrow> 0 < b \<Longrightarrow> decimal_floordiv a b = Inr (a div b)"
  by (cases "a = 0") (simp_all add: decimal_floordiv_def)

lemma emis_after_lump_sum:
  assumes "payment_type p = LUMP_SUM" and "monthly_emi lo = Some me" and "emis_after lo p = Inr ep"
  shows "\<not> 0 < me \<Longrightarrow> ep = emis_paid lo"
    and "0 < me \<Longrightarrow> 0 \<le> amount p \<Longrightarrow>
           \<exists>te. total_emis lo = Some te \<and> ep = min (emis_paid lo + amount p div me) te"
  using assms
  by (auto simp: emis_after_def decimal_floordiv_nonneg split: option.splits)

lemma emis_after_not_DivisionByZero: "emis_after lo p \<noteq> Inl DivisionByZero"
  by (auto simp: emis_after_def decimal_floordiv_def split: option.splits)

lemma emis_after_in_range:
  assumes "emis_in_range lo" and "0 \<le> amount p" and "emis_after lo p = Inr ep"
    and "total_emis lo = Some te"
  shows "0 \<le> ep \<and> ep \<le> te"
proof (cases "payment_type p")
  case EMI
  with assms show ?thesis
    by (auto simp: emis_after_def emis_in_range_def split: if_splits)
next
  case LUMP_SUM
  show ?thesis
  proof (cases "monthly_emi lo")
    case None
    with assms LUMP_SUM show ?thesis by (simp add: emis_after_def)
  next
    case (Some me)
    show ?thesis
    proof (cases "0 < me")
      case True
      with assms(2) have "0 \<le> amount p div me" by (simp add: pos_imp_zdiv_nonneg_iff)
      moreover from emis_after_lump_sum(2) [OF LUMP_SUM Some assms(3) True assms(2)] assms(4)
      have "ep = min (emis_paid lo + amount p div me) te" by simp
      ultimately show ?thesis using assms(1,4) by (auto simp: emis_in_range_def)
    next
      case False
      from emis_after_lump_sum(1) [OF LUMP_SUM Some assms(3) False] assms(1,4)
      show ?thesis by (simp add: emis_in_range_def)
    qed
  qed
qed

text \<open>The new-payment branch accepts what passes its three checks.\<close>

lemma Payment_save_new_succeeds:
  assumes "payment_id p = None" and "loan_status lo = ACTIVE" and "derived_set lo"
    and "remaining_balance lo = Some rb" and "amount p \<le> rb"
    and "payment_type p = EMI \<longrightarrow> Some (amount p) = monthly_emi lo"
  shows "\<exists>lo' p'. Payment_save lo p = Inr (lo', p')"
proof -
  from assms(3) obtain te me where te: "total_emis lo = Some te" and me: "monthly_emi lo = Some me"
    by (auto simp: derived_set_def)
  have "\<exists>ep. emis_after lo p = Inr ep"
  proof (cases "payment_type p")
    case EMI
    with assms(6) te me show ?thesis by (simp add: emis_after_def)
  next
    case LUMP_SUM
    with te me show ?thesis by (simp add: emis_after_def decimal_floordiv_def)
  qed
  then obtain ep where ep: "emis_after lo p = Inr ep" ..
  from Loan_save_skip obtain l' where
    "Loan_save True (lo\<lparr>amount_paid := amount_paid lo + amount p,
        remaining_balance := Some (if rb - amount p \<le> 1 then 0 else rb - amount p),
        emis_paid := (if rb - amount p \<le> 1 then te else ep),
        loan_status := (if rb - amount p \<le> 1 then COMPLETED else ACTIVE)\<rparr>) = Inr l'"
    by blast
  with assms(1,2,4,5) te ep show ?thesis
    by (auto simp: Payment_save_def quantize_cents_id Let_def)
qed

lemma Payment_save_new_first_failure:
  assumes "payment_id p = None" and "derived_set lo" and "remaining_balance lo = Some rb"
  shows "(case Payment_save lo p of Inl e \<Rightarrow> Inl e | Inr _ \<Rightarrow> Inr ()) =
         first_failure
           [(loan_status lo \<noteq> ACTIVE, LoanInactive),
            (rb < amount p, AmountExceedsBalance),
            (payment_type p = EMI \<and> Some (amount p) \<noteq> monthly_emi lo, EmiAmountMismatch)]"
proof (cases "loan_status lo = ACTIVE \<and> amount p \<le> rb \<and>
              (payment_type p = EMI \<longrightarrow> Some (amount p) = monthly_emi lo)")
  case True
  with Payment_save_new_succeeds [OF assms(1) _ assms(2,3)] show ?thesis by auto
next
  case False
  with assms(1,3) show ?thesis
    by (auto simp: Payment_save_def Let_def emis_after_def)
qed

text \<open>
  What the new-payment branch does to a loan when at most 0.01 is left, and that it
  accepts a lump sum of the whole remaining balance.
\<close>

lemma completion_forced:
  assumes "payment_id p = None" and "remaining_balance lo = Some rb"
  shows "(rb - amount p \<le> 1 \<and> Payment_save lo p = Inr (lo', p') \<longrightarrow>
            loan_status lo' = COMPLETED \<and> remaining_balance lo' = Some 0 \<and>
            Some (emis_paid lo') = total_emis lo \<and> balance_after_payment p' = 0 \<and>
            (derived_set lo \<longrightarrow> total_emis lo' = total_emis lo)) \<and>
         (loan_status lo = ACTIVE \<and> derived_set lo \<and> payment_type p = LUMP_SUM \<and>
          amount p = rb \<longrightarrow>
            (\<exists>l1 p1. Payment_save lo p = Inr (l1, p1) \<and> loan_status l1 = COMPLETED \<and>
               remaining_balance l1 = Some 0 \<and> Some (emis_paid l1) = total_emis l1))"
proof -
  have 1: "loan_status l1 = COMPLETED \<and> remaining_balance l1 = Some 0 \<and>
            Some (emis_paid l1) = total_emis lo \<and> balance_after_payment p1 = 0 \<and>
            (derived_set lo \<longrightarrow> total_emis l1 = total_emis lo)"
    if "rb - amount p \<le> 1" and sv: "Payment_save lo p = Inr (l1, p1)" for l1 p1
    by (rule Payment_save_new_fields [OF assms(1) sv assms(2)]) (use that(1) in simp)
  have 2: "\<exists>l1 p1. Payment_save lo p = Inr (l1, p1) \<and> loan_status l1 = COMPLETED \<and>
               remaining_balance l1 = Some 0 \<and> Some (emis_paid l1) = total_emis l1"
    if "loan_status lo = ACTIVE" and d: "derived_set lo" and "payment_type p = LUMP_SUM"
      and a: "amount p = rb"
  proof -
    from Payment_save_new_succeeds [OF assms(1) that(1) d assms(2)] that(3) a
    obtain l1 p1 where sv: "Payment_save lo p = Inr (l1, p1)" by auto
    from 1 [OF _ sv] a d show ?thesis using sv by auto
  qed
  from 1 2 show ?thesis by blast
qed

text \<open>The definitions unfolded to evaluate the examples.\<close>

lemmas eval_defs = loan_100_completed_def loan_100_part_def loan_100_counted_def
  loan_100_def loan_5c_def pay_def db_with_def db_0_def
  Payment_save_def emis_after_def decimal_floordiv_def Loan_save_def quantize_cents_def
  round_half_up_def derived_set_def ledger_balanced_def emis_in_range_def

text \<open>The two example loans are what creation stores.\<close>

lemma loan_100_created:
  "Loan_save False (new_loan \<lparr>req_customer_id = ''C1'', req_principal_amount = 10000,
      req_loan_period_years = 1, req_interest_rate = 0\<rparr>) = Inr loan_100"
  by (simp add: Loan_save_def new_loan_def Loan_calculate_def clean_defs loan_100_def
        round_half_up_def quantize_cents_def)

lemma loan_5c_created:
  "Loan_save False (new_loan \<lparr>req_customer_id = ''C1'', req_principal_amount = 5,
      req_loan_period_years = 1, req_interest_rate = 0\<rparr>) = Inr loan_5c"
  by (simp add: Loan_save_def new_loan_def Loan_calculate_def clean_defs loan_5c_def
        round_half_up_def quantize_cents_def)

text \<open>The three later states of the loan of 100.00 are what accepted payments leave.\<close>

lemma loan_100_states_reached:
  "Payment_save loan_100 (pay None LUMP_SUM 10000) =
     Inr (loan_100_completed, pay None LUMP_SUM 10000)"
  "Payment_save loan_100 (pay None LUMP_SUM 832) =
     Inr (loan_100\<lparr>amount_paid := 832, remaining_balance := Some 9168\<rparr>,
          (pay None LUMP_SUM 832)\<lparr>balance_after_payment := 9168\<rparr>)"
  "Payment_save (loan_100\<lparr>amount_paid := 832, remaining_balance := Some 9168\<rparr>)
       (pay None LUMP_SUM 5) =
     Inr (loan_100_part, (pay None LUMP_SUM 5)\<lparr>balance_after_payment := 9163\<rparr>)"
  "Payment_save loan_100 (pay None LUMP_SUM 9996) =
     Inr (loan_100_counted, (pay None LUMP_SUM 9996)\<lparr>balance_after_payment := 4\<rparr>)"
  by (simp_all add: eval_defs)

subsection \<open>The ledger balance\<close>

text \<open>
  C1 (amended). A loan whose derived fields are set and whose ledger is balanced
  (\<open>amount_paid + remaining_balance = total_amount\<close>) keeps its total under a payment
  that \<open>Payment_save\<close> accepts, and the new amounts are balanced again, with one
  exception: when the new-payment branch runs and the payment leaves exactly one hundredth,
  the completion check sets the remaining balance to zero and the sum is the total less
  0.01.
\<close>

theorem payment_ledger_balance:
  assumes "derived_set lo" and "total_amount lo = Some ta"
    and "remaining_balance lo = Some rb" and "amount_paid lo + rb = ta"
    and "Payment_save lo p = Inr (lo', p')"
  shows "total_amount lo' = Some ta \<and>
         (\<exists>rb'. remaining_balance lo' = Some rb' \<and>
                amount_paid lo' + rb' =
                  (if payment_id p = None \<and> rb - amount p = 1 then ta - 1 else ta))"
proof (cases "payment_id p = None")
  case False
  with assms show ?thesis by (simp add: Payment_save_with_pk)
next
  case True
  from Payment_save_new_fields [OF True assms(5,3)] assms(1)
  have le: "amount p \<le> rb"
    and ap: "amount_paid lo' = amount_paid lo + amount p"
    and rb': "remaining_balance lo' = Some (if rb - amount p \<le> 1 then 0 else rb - amount p)"
    and ta': "total_amount lo' = total_amount lo"
    by blast+
  from le have "rb - amount p \<le> 1 \<longleftrightarrow> rb - amount p = 0 \<or> rb - amount p = 1" by arith
  with assms(2,4) True ap rb' ta' show ?thesis by auto
qed

text \<open>An instalment of 8.33 on the fresh loan of 100.00.\<close>

theorem payment_ledger_balance_witness:
  "derived_set loan_100 \<and> total_amount loan_100 = Some 10000 \<and>
   remaining_balance loan_100 = Some 10000 \<and> amount_paid loan_100 + 10000 = 10000 \<and>
   Payment_save loan_100 (pay None EMI 833) =
     Inr (loan_100\<lparr>amount_paid := 833, remaining_balance := Some 9167, emis_paid := 1\<rparr>,
          (pay None EMI 833)\<lparr>balance_after_payment := 9167\<rparr>) \<and>
   (\<exists>rb'. remaining_balance
            (loan_100\<lparr>amount_paid := 833, remaining_balance := Some 9167, emis_paid := 1\<rparr>) =
            Some rb' \<and>
          amount_paid (loan_100\<lparr>amount_paid := 833, remaining_balance := Some 9167,
                                 emis_paid := 1\<rparr>) + rb' = 10000)"
proof -
  have h: "derived_set loan_100" "total_amount loan_100 = Some 10000"
    "remaining_balance loan_100 = Some 10000" "amount_paid loan_100 + 10000 = 10000"
    by (simp_all add: eval_defs)
  have sv: "Payment_save loan_100 (pay None EMI 833) =
     Inr (loan_100\<lparr>amount_paid := 833, remaining_balance := Some 9167, emis_paid := 1\<rparr>,
          (pay None EMI 833)\<lparr>balance_after_payment := 9167\<rparr>)"
    by (simp add: eval_defs)
  from payment_ledger_balance [OF h sv] h sv show ?thesis
    by (simp add: pay_def)
qed

text \<open>
  As first stated, with the sum equal to the total also on the completion path, the
  property fails: a lump sum of 99.99 on the fresh loan of 100.00 completes it with 99.99
  paid and nothing remaining.
\<close>

theorem ledger_balance_counterexample:
  "ledger_balanced loan_100 \<and>
   Payment_save loan_100 (pay None LUMP_SUM 9999) =
     Inr (loan_100\<lparr>amount_paid := 9999, remaining_balance := Some 0, emis_paid := 12,
                    loan_status := COMPLETED\<rparr>, pay None LUMP_SUM 9999) \<and>
   \<not> ledger_balanced (loan_100\<lparr>amount_paid := 9999, remaining_balance := Some 0,
                               emis_paid := 12, loan_status := COMPLETED\<rparr>)"
  by (simp add: eval_defs)

subsection \<open>Loans that are not active\<close>

text \<open>
  C2 (amended). A request on a loan that is not ACTIVE leaves the tables as they are
  and is answered 400: with LoanInactive when the amount field is valid (at least 0.01
  and at most ten digits before the decimal point), and with the error of the amount
  field otherwise. The new-payment branch of \<open>Payment_save\<close> raises LoanInactive on
  such a loan, and no call of \<open>Payment_save\<close> that returns changes the loan, so its
  status stays what it was.
\<close>

theorem inactive_loan_rejected:
  assumes "loans d (req_loan_id r) = Some lo" and "loan_status lo \<noteq> ACTIVE"
  shows "make_payment d u r =
           (Bad_Request_400
              (if \<not> decimal_fits 12 (req_amount r) then MaxDigits
               else if req_amount r < 1 then InvalidAmount else LoanInactive), d) \<and>
         (payment_id p = None \<longrightarrow> Payment_save lo p = Inl LoanInactive) \<and>
         (Payment_save lo p = Inr (lo', p') \<longrightarrow> lo' = lo)"
proof -
  from assms have "make_payment d u r =
           (Bad_Request_400
              (if \<not> decimal_fits 12 (req_amount r) then MaxDigits
               else if req_amount r < 1 then InvalidAmount else LoanInactive), d)"
    by (simp add: make_payment_def PaymentCreateSerializer_is_valid_def
          PaymentCreateSerializer_validate_def)
  moreover from assms(2) have "payment_id p = None \<longrightarrow> Payment_save lo p = Inl LoanInactive"
    by (simp add: Payment_save_def)
  moreover from assms(2) have "Payment_save lo p = Inr (lo', p') \<longrightarrow> lo' = lo"
    by (auto simp: Payment_save_def split: if_splits)
  ultimately show ?thesis by blast
qed

text \<open>An instalment on the loan of 100.00 after it was completed.\<close>

theorem inactive_loan_rejected_witness:
  "loans (db_with loan_100_completed) 7 = Some loan_100_completed \<and>
   loan_status loan_100_completed \<noteq> ACTIVE \<and>
   make_payment (db_with loan_100_completed) 9
       \<lparr>req_loan_id = 7, req_payment_type = EMI, req_amount = 833\<rparr> =
     (Bad_Request_400 LoanInactive, db_with loan_100_completed) \<and>
   payment_id (pay None EMI 833) = None \<and>
   Payment_save loan_100_completed (pay None EMI 833) = Inl LoanInactive \<and>
   Payment_save loan_100_completed (pay (Some 9) EMI 833) =
     Inr (loan_100_completed, pay (Some 9) EMI 833)"
proof -
  let ?L = "loan_100_completed"
  let ?r = "\<lparr>req_loan_id = 7, req_payment_type = EMI, req_amount = 833\<rparr>"
  have h: "loans (db_with ?L) (req_loan_id ?r) = Some ?L" "loan_status ?L \<noteq> ACTIVE"
    by (simp_all add: db_with_def loan_100_completed_def)
  have k: "payment_id (pay None EMI 833) = None"
    and sv: "Payment_save ?L (pay (Some 9) EMI 833) = Inr (?L, pay (Some 9) EMI 833)"
    by (simp_all add: pay_def Payment_save_def)
  from inactive_loan_rejected [OF h, of 9 "pay None EMI 833" ?L "pay None EMI 833"] k
  have "make_payment (db_with ?L) 9 ?r = (Bad_Request_400 LoanInactive, db_with ?L) \<and>
        Payment_save ?L (pay None EMI 833) = Inl LoanInactive"
    by (simp add: decimal_fits_def)
  with h k sv show ?thesis by simp
qed

text \<open>
  As first stated, with LoanInactive for every request, the property fails: an amount of
  0.00 on the completed loan is answered with the error of the amount field.
\<close>

theorem inactive_loan_counterexample:
  "loan_status loan_100_completed \<noteq> ACTIVE \<and>
   make_payment (db_with loan_100_completed) 9
       \<lparr>req_loan_id = 7, req_payment_type = LUMP_SUM, req_amount = 0\<rparr> =
     (Bad_Request_400 InvalidAmount, db_with loan_100_completed) \<and>
   Bad_Request_400 InvalidAmount \<noteq> Bad_Request_400 LoanInactive"
  by (simp add: make_payment_def PaymentCreateSerializer_is_valid_def loan_100_completed_def
        decimal_fits_def)

subsection \<open>The amount of an EMI payment\<close>

text \<open>
  C3. An EMI payment is accepted only when its amount is the instalment amount. Here
  the fresh loan of 100.00 has an instalment of 8.33; a request for an EMI payment of 8.00
  passes the serializer, \<open>make_payment\<close> answers 201, the payment row is written
  with a balance of 0.00, and the loan row is unchanged: the payment that
  \<open>new_payment\<close> builds has its key, so \<open>Payment_save\<close> skips the branch
  that compares the amount. The same payment without a key is refused with
  EmiAmountMismatch.
\<close>

theorem emi_mismatch_accepted:
  "monthly_emi loan_100 = Some 833 \<and>
   PaymentCreateSerializer_is_valid (db_with loan_100)
       \<lparr>req_loan_id = 7, req_payment_type = EMI, req_amount = 800\<rparr> = Inr () \<and>
   make_payment (db_with loan_100) 9
       \<lparr>req_loan_id = 7, req_payment_type = EMI, req_amount = 800\<rparr> =
     (Created_201,
      (db_with loan_100)\<lparr>payments := [pay (Some 9) EMI 800]\<rparr>) \<and>
   Payment_save loan_100 (pay None EMI 800) = Inl EmiAmountMismatch"
  by (simp add: loan_100_def make_payment_def db_with_def db_0_def pay_def new_payment_def
        PaymentCreateSerializer_is_valid_def PaymentCreateSerializer_validate_def
        Payment_save_def emis_after_def quantize_cents_id decimal_fits_def emis_remaining_def)

subsection \<open>Loan creation\<close>

text \<open>
  C4. Loan creation is to reject a principal or a period that is not positive. Here a
  principal of 0.00, and a period of 0 years, each pass \<open>Loan_clean\<close> and the loan is
  stored with its derived fields.
\<close>

theorem zero_principal_accepted:
  "lend_loan db_0 7 \<lparr>req_customer_id = ''C1'', req_principal_amount = 0,
       req_loan_period_years = 1, req_interest_rate = 1000\<rparr> =
     (Created_201,
      db_with \<lparr>customer = ''C1'', principal_amount = 0, loan_period_years = 1,
          interest_rate = 1000, total_interest = Some 0, total_amount = Some 0,
          monthly_emi = Some 0, amount_paid = 0, remaining_balance = Some 0,
          total_emis = Some 12, emis_paid = 0, loan_status = ACTIVE\<rparr>) \<and>
   lend_loan db_0 7 \<lparr>req_customer_id = ''C1'', req_principal_amount = 10000,
       req_loan_period_years = 0, req_interest_rate = 1000\<rparr> =
     (Created_201,
      db_with \<lparr>customer = ''C1'', principal_amount = 10000, loan_period_years = 0,
          interest_rate = 1000, total_interest = Some 0, total_amount = Some 10000,
          monthly_emi = Some 10000, amount_paid = 0, remaining_balance = Some 10000,
          total_emis = Some 0, emis_paid = 0, loan_status = ACTIVE\<rparr>)"
  by (simp add: lend_loan_def LoanCreateSerializer_is_valid_def LoanCreateSerializer_errors_def
        db_0_def db_with_def Loan_save_def new_loan_def Loan_calculate_def clean_defs
        round_half_up_def quantize_cents_def)

text \<open>The negative inputs are rejected: the loan is not stored.\<close>

lemma negative_inputs_rejected:
  assumes "req_principal_amount r < 0 \<or> req_loan_period_years r < 0 \<or> req_interest_rate r < 0"
  shows "\<exists>e. lend_loan d u r = (Bad_Request_400 e, d) \<or> lend_loan d u r = (Not_Found_404 e, d) \<or>
             lend_loan d u r = (Server_Error_500 e, d)"
proof (cases "LoanCreateSerializer_is_valid d r")
  case (Inl e)
  then show ?thesis by (simp add: lend_loan_def)
next
  case (Inr v)
  show ?thesis
  proof (cases "customers d (req_customer_id r)")
    case None
    with Inr show ?thesis by (simp add: lend_loan_def)
  next
    case (Some c)
    from assms have "\<exists>e. Loan_clean (Loan_calculate (new_loan r)) = Inl e"
      by (auto simp: Loan_clean_def Loan_calculate_def new_loan_def Let_def)
    then obtain es where
      "Loan_full_clean (Loan_calculate (new_loan r)) = Inl (ValidationError es)"
      using Loan_full_clean_Inl by blast
    then have "Loan_save False (new_loan r) = Inl (ValidationError es)"
      by (simp add: Loan_save_def new_loan_def)
    with Inr Some show ?thesis by (simp add: lend_loan_def)
  qed
qed

text \<open>
  C5. For a principal \<open>P > 0\<close>, a period \<open>N > 0\<close> and a rate \<open>R \<ge> 0\<close>,
  loan creation computes an ACTIVE loan with nothing paid,
  \<open>total_interest = round2 (P * N * R / 100)\<close>,
  \<open>total_amount = round2 (P + total_interest)\<close>, \<open>total_emis = N * 12\<close>,
  \<open>monthly_emi = round2 (total_amount / total_emis)\<close> and the total as remaining
  balance, the amounts read in currency units. \<open>lend_loan\<close> answers 201 and stores
  this loan when the customer id is that of a known customer, the rate has at most three
  digits before the decimal point, \<open>N * 12\<close> is in the range of the integer column and
  the total amount has at most ten digits before the decimal point; and whenever it
  answers 201, this loan is what it has stored. When \<open>N * 12\<close> is not positive the
  instalment computed is the total amount. For 100000.00 over 2 years at 10.00 percent the
  loan has 20000.00 interest, 120000.00 in total and 24 instalments of 5000.00.
\<close>

theorem loan_creation_terms:
  "(0 < req_principal_amount r \<and> 0 < req_loan_period_years r \<and> 0 \<le> req_interest_rate r \<longrightarrow>
      (\<exists>l ti ta me.
         Loan_calculate (new_loan r) = l \<and>
         total_interest l = Some ti \<and>
         cents ti = round2 (cents (req_principal_amount r) * of_int (req_loan_period_years r) *
                              cents (req_interest_rate r) / 100) \<and>
         total_amount l = Some ta \<and>
         cents ta = round2 (cents (req_principal_amount r) + cents ti) \<and>
         total_emis l = Some (req_loan_period_years r * 12) \<and>
         monthly_emi l = Some me \<and>
         cents me = round2 (cents ta / of_int (req_loan_period_years r * 12)) \<and>
         remaining_balance l = Some ta \<and> amount_paid l = 0 \<and> emis_paid l = 0 \<and>
         loan_status l = ACTIVE \<and>
         (req_customer_id r \<noteq> [] \<and> length (req_customer_id r) \<le> 50 \<and>
          customers d (req_customer_id r) \<noteq> None \<and> decimal_fits 5 (req_interest_rate r) \<and>
          integer_fits (req_loan_period_years r * 12) \<and> decimal_fits 12 ta \<longrightarrow>
            lend_loan d u r = (Created_201, d\<lparr>loans := (loans d)(u \<mapsto> l)\<rparr>)) \<and>
         (lend_loan d u r = (Created_201, d') \<longrightarrow> d' = d\<lparr>loans := (loans d)(u \<mapsto> l)\<rparr>))) \<and>
   (\<not> 0 < req_loan_period_years r * 12 \<longrightarrow>
      (\<exists>ta. monthly_emi (Loan_calculate (new_loan r)) = Some ta \<and>
            total_amount (Loan_calculate (new_loan r)) = Some ta)) \<and>
   Loan_save False (new_loan \<lparr>req_customer_id = ''C1'', req_principal_amount = 10000000,
      req_loan_period_years = 2, req_interest_rate = 1000\<rparr>) =
     Inr \<lparr>customer = ''C1'', principal_amount = 10000000, loan_period_years = 2,
          interest_rate = 1000, total_interest = Some 2000000, total_amount = Some 12000000,
          monthly_emi = Some 500000, amount_paid = 0, remaining_balance = Some 12000000,
          total_emis = Some 24, emis_paid = 0, loan_status = ACTIVE\<rparr>"
proof -
  let ?P = "req_principal_amount r" and ?N = "req_loan_period_years r"
    and ?R = "req_interest_rate r"
  define ti where "ti = round_half_up (?P * ?N * ?R) 10000"
  define ta where "ta = ?P + ti"
  define me where "me = round_half_up ta (?N * 12)"
  define l where "l = (new_loan r)\<lparr>total_interest := Some ti, total_amount := Some ta,
              total_emis := Some (?N * 12), monthly_emi := Some me,
              remaining_balance := Some ta\<rparr>"
  have 1: "\<exists>l ti ta me.
         Loan_calculate (new_loan r) = l \<and>
         total_interest l = Some ti \<and>
         cents ti = round2 (cents (req_principal_amount r) * of_int (req_loan_period_years r) *
                              cents (req_interest_rate r) / 100) \<and>
         total_amount l = Some ta \<and>
         cents ta = round2 (cents (req_principal_amount r) + cents ti) \<and>
         total_emis l = Some (req_loan_period_years r * 12) \<and>
         monthly_emi l = Some me \<and>
         cents me = round2 (cents ta / of_int (req_loan_period_years r * 12)) \<and>
         remaining_balance l = Some ta \<and> amount_paid l = 0 \<and> emis_paid l = 0 \<and>
         loan_status l = ACTIVE \<and>
         (req_customer_id r \<noteq> [] \<and> length (req_customer_id r) \<le> 50 \<and>
          customers d (req_customer_id r) \<noteq> None \<and> decimal_fits 5 (req_interest_rate r) \<and>
          integer_fits (req_loan_period_years r * 12) \<and> decimal_fits 12 ta \<longrightarrow>
            lend_loan d u r = (Created_201, d\<lparr>loans := (loans d)(u \<mapsto> l)\<rparr>)) \<and>
         (lend_loan d u r = (Created_201, d') \<longrightarrow> d' = d\<lparr>loans := (loans d)(u \<mapsto> l)\<rparr>)"
    if P: "0 < ?P" and N: "0 < ?N" and R: "0 \<le> ?R"
  proof -
    from P N R have nn: "0 \<le> ?P * ?N * ?R" by simp
    from round_half_up_bounds [OF nn, of 10000] have ti0: "0 \<le> ti" by (simp add: ti_def)
    with P have ta0: "0 \<le> ta" and Pta: "?P \<le> ta" and tita: "ti \<le> ta" by (simp_all add: ta_def)
    from N have N12: "1 \<le> ?N * 12" by simp
    from round_half_up_bounds [OF ta0 N12] have me0: "0 \<le> me" and meta: "me \<le> ta"
      by (simp_all add: me_def)
    have "cents ti = round2 (of_int (?P * ?N * ?R) / of_int 10000 / 100)"
      unfolding ti_def by (rule round2_round_half_up [OF nn]) simp
    also have "of_int (?P * ?N * ?R) / of_int 10000 / 100 =
               (cents ?P * of_int ?N * cents ?R / 100 :: rat)"
      by (simp add: cents_def)
    finally have a: "cents ti = round2 (cents ?P * of_int ?N * cents ?R / 100)" .
    have "cents ?P + cents ti = cents ta" by (simp add: cents_def ta_def add_divide_distrib)
    then have b: "cents ta = round2 (cents ?P + cents ti)" by (simp add: round2_cents)
    have "cents me = round2 (of_int ta / of_int (?N * 12) / 100)"
      unfolding me_def by (rule round2_round_half_up [OF ta0]) (use N in simp)
    also have "of_int ta / of_int (?N * 12) / 100 = (cents ta / of_int (?N * 12) :: rat)"
      by (simp add: cents_def)
    finally have e: "cents me = round2 (cents ta / of_int (?N * 12))" .
    have calc: "Loan_calculate (new_loan r) = l"
      using N
      by (simp add: Loan_calculate_def new_loan_def Let_def quantize_cents_id
            ti_def ta_def me_def l_def)
    have f: "total_interest l = Some ti" "total_amount l = Some ta"
      "total_emis l = Some (?N * 12)" "monthly_emi l = Some me"
      "remaining_balance l = Some ta" "amount_paid l = 0" "emis_paid l = 0"
      "loan_status l = ACTIVE"
      by (simp_all add: l_def new_loan_def)
    have "total_amount (new_loan r) = None" by (simp add: new_loan_def)
    with calc have sv: "Loan_save False (new_loan r) =
                (case Loan_full_clean l of Inl e \<Rightarrow> Inl e | Inr _ \<Rightarrow> Inr l)"
      by (simp add: Loan_save_def)
    have er: "emis_remaining l = Inr (max 0 (?N * 12))"
      by (simp add: emis_remaining_def l_def new_loan_def)
    have g: "lend_loan d u r = (Created_201, d\<lparr>loans := (loans d)(u \<mapsto> l)\<rparr>)"
      if c: "req_customer_id r \<noteq> []" "length (req_customer_id r) \<le> 50"
        "customers d (req_customer_id r) \<noteq> None"
        and fR: "decimal_fits 5 ?R" and fN: "integer_fits (?N * 12)" and fta: "decimal_fits 12 ta"
    proof -
      from fta Pta P tita ti0 meta me0 have fits: "decimal_fits 12 ?P" "decimal_fits 12 ti"
        "decimal_fits 12 me" "decimal_fits 12 0"
        by (simp_all add: decimal_fits_def)
      from fN N have ints: "integer_fits ?N" "integer_fits 0"
        by (simp_all add: integer_fits_def integer_field_min_def integer_field_max_def)
      from fits ints fR fN fta have "Loan_clean_fields l = []"
        by (simp add: Loan_clean_fields_def field_error_def blank_field_error_def l_def
              new_loan_def)
      moreover from P N R have "Loan_clean l = Inr ()"
        by (simp add: Loan_clean_def l_def new_loan_def)
      ultimately have "Loan_full_clean l = Inr ()" by (simp add: Loan_full_clean_Inr)
      with sv have sv': "Loan_save False (new_loan r) = Inr l" by simp
      from c fits(1) fR have "LoanCreateSerializer_is_valid d r = Inr ()"
        by (simp add: LoanCreateSerializer_is_valid_def LoanCreateSerializer_errors_def
              field_error_def)
      with c(3) sv' er show ?thesis by (auto simp: lend_loan_def)
    qed
    have h: "d' = d\<lparr>loans := (loans d)(u \<mapsto> l)\<rparr>"
      if "lend_loan d u r = (Created_201, d')"
    proof (cases "Loan_full_clean l")
      case (Inl x)
      with sv that show ?thesis
        by (auto simp: lend_loan_def split: sum.splits option.splits)
    next
      case (Inr x)
      with sv that show ?thesis
        by (auto simp: lend_loan_def split: sum.splits option.splits)
    qed
    from g h have gh: "(req_customer_id r \<noteq> [] \<and> length (req_customer_id r) \<le> 50 \<and>
       customers d (req_customer_id r) \<noteq> None \<and> decimal_fits 5 (req_interest_rate r) \<and>
       integer_fits (req_loan_period_years r * 12) \<and> decimal_fits 12 ta \<longrightarrow>
         lend_loan d u r = (Created_201, d\<lparr>loans := (loans d)(u \<mapsto> l)\<rparr>)) \<and>
      (lend_loan d u r = (Created_201, d') \<longrightarrow> d' = d\<lparr>loans := (loans d)(u \<mapsto> l)\<rparr>)"
      by blast
    show ?thesis
      by (rule exI [of _ l], rule exI [of _ ti], rule exI [of _ ta], rule exI [of _ me])
         (intro conjI calc f a b e gh [THEN conjunct1] gh [THEN conjunct2])
  qed
  have 2: "\<exists>ta. monthly_emi (Loan_calculate (new_loan r)) = Some ta \<and>
            total_amount (Loan_calculate (new_loan r)) = Some ta"
    if "\<not> 0 < ?N * 12"
    using that by (simp add: Loan_calculate_def new_loan_def Let_def)
  have 3: "Loan_save False (new_loan \<lparr>req_customer_id = ''C1'', req_principal_amount = 10000000,
      req_loan_period_years = 2, req_interest_rate = 1000\<rparr>) =
     Inr \<lparr>customer = ''C1'', principal_amount = 10000000, loan_period_years = 2,
          interest_rate = 1000, total_interest = Some 2000000, total_amount = Some 12000000,
          monthly_emi = Some 500000, amount_paid = 0, remaining_balance = Some 12000000,
          total_emis = Some 24, emis_paid = 0, loan_status = ACTIVE\<rparr>"
    by (simp add: Loan_save_def new_loan_def Loan_calculate_def clean_defs
        round_half_up_def quantize_cents_def)
  from 1 2 3 show ?thesis by blast
qed

text \<open>The scenario above through \<open>lend_loan\<close>, and a period of zero years.\<close>

theorem loan_creation_terms_witness:
  "(0::int) < 10000000 \<and> (0::int) < 2 \<and> (0::int) \<le> 1000 \<and>
   ''C1'' \<noteq> [] \<and> length ''C1'' \<le> 50 \<and> customers db_0 ''C1'' \<noteq> None \<and>
   decimal_fits 5 1000 \<and> integer_fits (2 * 12) \<and> decimal_fits 12 12000000 \<and>
   lend_loan db_0 7 \<lparr>req_customer_id = ''C1'', req_principal_amount = 10000000,
       req_loan_period_years = 2, req_interest_rate = 1000\<rparr> =
     (Created_201,
      db_with \<lparr>customer = ''C1'', principal_amount = 10000000, loan_period_years = 2,
          interest_rate = 1000, total_interest = Some 2000000, total_amount = Some 12000000,
          monthly_emi = Some 500000, amount_paid = 0, remaining_balance = Some 12000000,
          total_emis = Some 24, emis_paid = 0, loan_status = ACTIVE\<rparr>) \<and>
   \<not> (0::int) < 0 * 12 \<and>
   (\<exists>ta. monthly_emi (Loan_calculate (new_loan \<lparr>req_customer_id = ''C1'',
            req_principal_amount = 10000, req_loan_period_years = 0,
            req_interest_rate = 1000\<rparr>)) = Some ta \<and>
         total_amount (Loan_calculate (new_loan \<lparr>req_customer_id = ''C1'',
            req_principal_amount = 10000, req_loan_period_years = 0,
            req_interest_rate = 1000\<rparr>)) = Some ta)"
proof -
  let ?r = "\<lparr>req_customer_id = ''C1'', req_principal_amount = 10000000,
            req_loan_period_years = 2, req_interest_rate = 1000\<rparr>"
  let ?z = "\<lparr>req_customer_id = ''C1'', req_principal_amount = 10000,
            req_loan_period_years = 0, req_interest_rate = 1000\<rparr>"
  let ?L = "\<lparr>customer = ''C1'', principal_amount = 10000000, loan_period_years = 2,
          interest_rate = 1000, total_interest = Some 2000000, total_amount = Some 12000000,
          monthly_emi = Some 500000, amount_paid = 0, remaining_balance = Some 12000000,
          total_emis = Some 24, emis_paid = 0, loan_status = ACTIVE\<rparr>"
  have c: "''C1'' \<noteq> []" "length ''C1'' \<le> 50" "customers db_0 ''C1'' \<noteq> None"
    and fit: "decimal_fits 5 1000" "integer_fits (2 * 12)" "decimal_fits 12 12000000"
    by (simp_all add: db_0_def decimal_fits_def integer_fits_def integer_field_min_def
          integer_field_max_def)
  have calc: "Loan_calculate (new_loan ?r) = ?L"
    by (simp add: Loan_calculate_def new_loan_def round_half_up_def quantize_cents_def)
  from loan_creation_terms [of ?r db_0 7 "db_with ?L"]
  obtain l ta where l: "Loan_calculate (new_loan ?r) = l" and ta: "total_amount l = Some ta"
    and imp: "''C1'' \<noteq> [] \<and> length ''C1'' \<le> 50 \<and> customers db_0 ''C1'' \<noteq> None \<and>
          decimal_fits 5 1000 \<and> integer_fits (2 * 12) \<and> decimal_fits 12 ta \<longrightarrow>
            lend_loan db_0 7 ?r = (Created_201, db_0\<lparr>loans := (loans db_0)(7 \<mapsto> l)\<rparr>)"
    by auto
  from l calc have "l = ?L" by simp
  with ta have "ta = 12000000" by simp
  with imp c fit \<open>l = ?L\<close> have 1: "lend_loan db_0 7 ?r = (Created_201, db_with ?L)"
    by (simp add: db_with_def db_0_def)
  from loan_creation_terms [of ?z db_0 7 db_0]
  have 2: "\<exists>ta. monthly_emi (Loan_calculate (new_loan ?z)) = Some ta \<and>
            total_amount (Loan_calculate (new_loan ?z)) = Some ta"
    by simp
  from c fit 1 2 show ?thesis by simp
qed

text \<open>
  A principal of 9999999999.99 over one year at 10.00 percent gives a total of
  10999999999.99, which the columns of the total and of the remaining balance do not
  hold: the answer is 500 and no loan is stored.
\<close>

lemma loan_creation_overflow:
  "lend_loan db_0 7 \<lparr>req_customer_id = ''C1'', req_principal_amount = 999999999999,
       req_loan_period_years = 1, req_interest_rate = 1000\<rparr> =
     (Server_Error_500
        (ValidationError [(''total_amount'', MaxDigits), (''remaining_balance'', MaxDigits)]),
      db_0)"
  by (simp add: lend_loan_def LoanCreateSerializer_is_valid_def LoanCreateSerializer_errors_def
        db_0_def Loan_save_def new_loan_def Loan_calculate_def clean_defs
        round_half_up_def quantize_cents_def)

subsection \<open>Instalments covered by a lump sum\<close>

text \<open>
  C6 (amended). When the new-payment branch accepts a lump sum of a non-negative amount
  on a loan with a positive instalment amount, the instalments paid become
  \<open>min (emis_paid + amount div monthly_emi) total_emis\<close>, and so
  \<open>min (emis_paid + k) total_emis\<close> for an amount of \<open>k\<close> instalments, unless
  the payment leaves at most 0.01: then the completion check sets them to
  \<open>total_emis\<close>.
\<close>

theorem lump_sum_installments:
  assumes "payment_id p = None" and "payment_type p = LUMP_SUM" and "0 \<le> amount p"
    and "monthly_emi lo = Some me" and "0 < me"
    and "remaining_balance lo = Some rb" and "total_emis lo = Some te"
    and "Payment_save lo p = Inr (lo', p')"
  shows "emis_paid lo' =
           (if rb - amount p \<le> 1 then te else min (emis_paid lo + amount p div me) te) \<and>
         (0 \<le> k \<and> amount p = k * me \<longrightarrow>
            emis_paid lo' = (if rb - amount p \<le> 1 then te else min (emis_paid lo + k) te))"
proof -
  from Payment_save_new_fields [OF assms(1,8,6)] obtain ep ep' where
    ep: "emis_after lo p = Inr ep"
    and ep': "(if rb - amount p \<le> 1 then total_emis lo else Some ep) = Some ep'"
    and e: "emis_paid lo' = ep'"
    by blast
  from emis_after_lump_sum(2) [OF assms(2,4) ep assms(5,3)] assms(7)
  have "ep = min (emis_paid lo + amount p div me) te" by simp
  with ep' e assms(7)
  have 1: "emis_paid lo' =
           (if rb - amount p \<le> 1 then te else min (emis_paid lo + amount p div me) te)"
    by (simp split: if_splits)
  moreover have "k * me div me = k" for k using assms(5) by simp
  ultimately show ?thesis by simp
qed

text \<open>A lump sum of two instalments on the fresh loan of 100.00.\<close>

theorem lump_sum_installments_witness:
  "payment_id (pay None LUMP_SUM 1666) = None \<and> payment_type (pay None LUMP_SUM 1666) = LUMP_SUM \<and>
   0 \<le> amount (pay None LUMP_SUM 1666) \<and> monthly_emi loan_100 = Some 833 \<and> (0::int) < 833 \<and>
   remaining_balance loan_100 = Some 10000 \<and> total_emis loan_100 = Some 12 \<and>
   Payment_save loan_100 (pay None LUMP_SUM 1666) =
     Inr (loan_100\<lparr>amount_paid := 1666, remaining_balance := Some 8334, emis_paid := 2\<rparr>,
          (pay None LUMP_SUM 1666)\<lparr>balance_after_payment := 8334\<rparr>) \<and>
   (0::int) \<le> 2 \<and> amount (pay None LUMP_SUM 1666) = 2 * 833 \<and>
   emis_paid (loan_100\<lparr>amount_paid := 1666, remaining_balance := Some 8334, emis_paid := 2\<rparr>) =
     min (emis_paid loan_100 + 2) 12"
proof -
  let ?P = "pay None LUMP_SUM 1666"
  have h: "payment_id ?P = None" "payment_type ?P = LUMP_SUM" "0 \<le> amount ?P"
    "monthly_emi loan_100 = Some 833" "(0::int) < 833"
    "remaining_balance loan_100 = Some 10000" "total_emis loan_100 = Some 12"
    by (simp_all add: eval_defs)
  have sv: "Payment_save loan_100 ?P =
     Inr (loan_100\<lparr>amount_paid := 1666, remaining_balance := Some 8334, emis_paid := 2\<rparr>,
          ?P\<lparr>balance_after_payment := 8334\<rparr>)"
    by (simp add: eval_defs)
  have k: "(0::int) \<le> 2" "amount ?P = 2 * 833" by (simp_all add: pay_def)
  from lump_sum_installments [OF h sv, of 2] k
  have "emis_paid (loan_100\<lparr>amount_paid := 1666, remaining_balance := Some 8334,
            emis_paid := 2\<rparr>) = min (emis_paid loan_100 + 2) 12"
    by (simp add: pay_def)
  with h sv k show ?thesis by simp
qed

text \<open>
  As first stated, without the exception, the property fails: with 91.63 remaining and
  no instalment counted, a lump sum of 91.63, eleven instalments of 8.33, completes the
  loan and leaves twelve instalments paid, not eleven.
\<close>

theorem lump_sum_installments_counterexample:
  "monthly_emi loan_100_part = Some 833 \<and> remaining_balance loan_100_part = Some 9163 \<and>
   amount (pay None LUMP_SUM 9163) = 11 * 833 \<and>
   Payment_save loan_100_part (pay None LUMP_SUM 9163) =
     Inr (loan_100_completed, pay None LUMP_SUM 9163) \<and>
   emis_paid loan_100_completed \<noteq> min (emis_paid loan_100_part + 11) 12"
  by (simp add: eval_defs)

subsection \<open>Completion\<close>

text \<open>
  C7. A payment that leaves at most 0.01 is to complete the loan: status COMPLETED,
  remaining balance 0.00, all instalments paid. Here a request for a lump sum of the whole
  remaining balance of the fresh loan of 100.00 passes the serializer and
  \<open>make_payment\<close> answers 201 and writes the payment row with a balance of 0.00, but
  the loan row is unchanged: ACTIVE, 100.00 remaining, no instalment paid. The payment
  that \<open>new_payment\<close> builds has its key, so \<open>Payment_save\<close> skips the block
  with the completion check. The same payment without a key completes the loan.
\<close>

theorem full_balance_not_completed:
  "loan_status loan_100 = ACTIVE \<and> remaining_balance loan_100 = Some 10000 \<and>
   emis_paid loan_100 = 0 \<and>
   PaymentCreateSerializer_is_valid (db_with loan_100)
       \<lparr>req_loan_id = 7, req_payment_type = LUMP_SUM, req_amount = 10000\<rparr> = Inr () \<and>
   make_payment (db_with loan_100) 9
       \<lparr>req_loan_id = 7, req_payment_type = LUMP_SUM, req_amount = 10000\<rparr> =
     (Created_201,
      (db_with loan_100)\<lparr>payments := [pay (Some 9) LUMP_SUM 10000]\<rparr>) \<and>
   Payment_save loan_100 (pay None LUMP_SUM 10000) =
     Inr (loan_100_completed, pay None LUMP_SUM 10000)"
  by (simp add: eval_defs make_payment_def new_payment_def decimal_fits_def emis_remaining_def
        PaymentCreateSerializer_is_valid_def PaymentCreateSerializer_validate_def)

subsection \<open>The order of the checks\<close>

text \<open>
  C8 (amended). For a request on a stored loan, the serializer decides by the first
  failing check in this order: the amount has at most ten digits before the decimal point
  (MaxDigits), the amount is at least 0.01 (InvalidAmount), the loan is ACTIVE
  (LoanInactive), the remaining balance is positive (NoRemainingBalance), the amount does
  not exceed it (AmountExceedsBalance), and for an EMI payment instalments remain
  (AllInstallmentsPaid). A request it rejects is answered 400 with that error and the
  tables are unchanged. The new-payment branch of \<open>Payment_save\<close> decides by the
  first failing check among: the loan is ACTIVE, the amount does not exceed the remaining
  balance, and for an EMI payment the amount is the instalment amount (EmiAmountMismatch).
\<close>

theorem validation_order:
  assumes "loans d (req_loan_id r) = Some lo" and "remaining_balance lo = Some rb"
    and "total_emis lo = Some te"
  shows "PaymentCreateSerializer_is_valid d r =
           first_failure
             [(\<not> decimal_fits 12 (req_amount r), MaxDigits),
              (req_amount r < 1, InvalidAmount),
              (loan_status lo \<noteq> ACTIVE, LoanInactive),
              (rb \<le> 0, NoRemainingBalance),
              (rb < req_amount r, AmountExceedsBalance),
              (req_payment_type r = EMI \<and> te \<le> emis_paid lo, AllInstallmentsPaid)] \<and>
         (PaymentCreateSerializer_is_valid d r = Inl e \<longrightarrow>
            make_payment d u r = (Bad_Request_400 e, d)) \<and>
         (payment_id p = None \<and> derived_set lo \<longrightarrow>
            (case Payment_save lo p of Inl e \<Rightarrow> Inl e | Inr _ \<Rightarrow> Inr ()) =
            first_failure
              [(loan_status lo \<noteq> ACTIVE, LoanInactive),
               (rb < amount p, AmountExceedsBalance),
               (payment_type p = EMI \<and> Some (amount p) \<noteq> monthly_emi lo, EmiAmountMismatch)])"
proof -
  have 1: "PaymentCreateSerializer_is_valid d r =
           first_failure
             [(\<not> decimal_fits 12 (req_amount r), MaxDigits),
              (req_amount r < 1, InvalidAmount),
              (loan_status lo \<noteq> ACTIVE, LoanInactive),
              (rb \<le> 0, NoRemainingBalance),
              (rb < req_amount r, AmountExceedsBalance),
              (req_payment_type r = EMI \<and> te \<le> emis_paid lo, AllInstallmentsPaid)]"
    using assms
    by (simp add: PaymentCreateSerializer_is_valid_def PaymentCreateSerializer_validate_def)
  have 2: "make_payment d u r = (Bad_Request_400 e, d)"
    if "PaymentCreateSerializer_is_valid d r = Inl e"
  proof -
    from that 1 have "e \<noteq> TypeError" by (auto split: if_splits)
    with that show ?thesis by (simp add: make_payment_def)
  qed
  from 1 2 Payment_save_new_first_failure [OF _ _ assms(2)] show ?thesis by blast
qed

text \<open>A lump sum above the balance, and an instalment of the wrong amount.\<close>

theorem validation_order_witness:
  "loans (db_with loan_100) 7 = Some loan_100 \<and> remaining_balance loan_100 = Some 10000 \<and>
   total_emis loan_100 = Some 12 \<and> derived_set loan_100 \<and>
   PaymentCreateSerializer_is_valid (db_with loan_100)
       \<lparr>req_loan_id = 7, req_payment_type = LUMP_SUM, req_amount = 10001\<rparr> =
     Inl AmountExceedsBalance \<and>
   make_payment (db_with loan_100) 9
       \<lparr>req_loan_id = 7, req_payment_type = LUMP_SUM, req_amount = 10001\<rparr> =
     (Bad_Request_400 AmountExceedsBalance, db_with loan_100) \<and>
   payment_id (pay None EMI 800) = None \<and>
   Payment_save loan_100 (pay None EMI 800) = Inl EmiAmountMismatch"
proof -
  let ?r = "\<lparr>req_loan_id = 7, req_payment_type = LUMP_SUM, req_amount = 10001\<rparr>"
  let ?p = "pay None EMI 800"
  have h: "loans (db_with loan_100) (req_loan_id ?r) = Some loan_100"
    "remaining_balance loan_100 = Some 10000" "total_emis loan_100 = Some 12"
    and d: "derived_set loan_100" and k: "payment_id ?p = None"
    by (simp_all add: db_with_def loan_100_def derived_set_def pay_def)
  have m: "monthly_emi loan_100 = Some 833" "loan_status loan_100 = ACTIVE"
    by (simp_all add: loan_100_def)
  from validation_order [OF h, of AmountExceedsBalance 9 ?p] d k m
  have "PaymentCreateSerializer_is_valid (db_with loan_100) ?r = Inl AmountExceedsBalance \<and>
        make_payment (db_with loan_100) 9 ?r =
          (Bad_Request_400 AmountExceedsBalance, db_with loan_100) \<and>
        Payment_save loan_100 ?p = Inl EmiAmountMismatch"
    by (auto simp: pay_def decimal_fits_def split: sum.splits)
  with h d k show ?thesis by simp
qed

text \<open>
  In the order first stated (\<open>spec_checks\<close>) an EMI request of 0.04 on the ACTIVE
  loan with 0.04 remaining and all twelve instalments counted fails with
  EmiAmountMismatch, and an EMI request of 0.00 on the completed loan with LoanInactive;
  the answers are AllInstallmentsPaid and InvalidAmount.
\<close>

theorem validation_order_counterexample:
  "first_failure (spec_checks loan_100_counted EMI 4) = Inl EmiAmountMismatch \<and>
   make_payment (db_with loan_100_counted) 9
       \<lparr>req_loan_id = 7, req_payment_type = EMI, req_amount = 4\<rparr> =
     (Bad_Request_400 AllInstallmentsPaid, db_with loan_100_counted) \<and>
   first_failure (spec_checks loan_100_completed EMI 0) = Inl LoanInactive \<and>
   make_payment (db_with loan_100_completed) 9
       \<lparr>req_loan_id = 7, req_payment_type = EMI, req_amount = 0\<rparr> =
     (Bad_Request_400 InvalidAmount, db_with loan_100_completed)"
  by (simp add: spec_checks_def loan_100_def loan_100_counted_def loan_100_completed_def
        make_payment_def db_with_def decimal_fits_def
        PaymentCreateSerializer_is_valid_def PaymentCreateSerializer_validate_def)

subsection \<open>The bounds of the instalment counter\<close>

text \<open>
  C9. \<open>0 \<le> emis_paid \<le> total_emis\<close> holds on every loan that
  \<open>Loan_save\<close> stores at creation, and a payment of a non-negative amount that
  \<open>Payment_save\<close> accepts on a loan where it holds leaves it holding.
\<close>

theorem emis_paid_in_range:
  "(Loan_save False (new_loan r) = Inr l \<longrightarrow> emis_in_range l) \<and>
   (emis_in_range lo \<and> derived_set lo \<and> 0 \<le> amount p \<and> Payment_save lo p = Inr (lo', p')
      \<longrightarrow> emis_in_range lo')"
proof (intro conjI impI)
  assume sv: "Loan_save False (new_loan r) = Inr l"
  have "total_amount (new_loan r) = None" by (simp add: new_loan_def)
  with sv have "(case Loan_full_clean (Loan_calculate (new_loan r)) of
                   Inl e \<Rightarrow> Inl e | Inr _ \<Rightarrow> Inr (Loan_calculate (new_loan r))) = Inr l"
    by (simp add: Loan_save_def Let_def)
  then have "l = Loan_calculate (new_loan r)" and "Loan_full_clean l = Inr ()"
    by (auto split: sum.splits)
  then have "l = Loan_calculate (new_loan r)" and "Loan_clean l = Inr ()"
    by (simp_all add: Loan_full_clean_Inr)
  then show "emis_in_range l"
    by (auto simp: new_loan_def Loan_calculate_def Loan_clean_def Let_def
          emis_in_range_def split: if_splits)
next
  assume a: "emis_in_range lo \<and> derived_set lo \<and> 0 \<le> amount p \<and>
             Payment_save lo p = Inr (lo', p')"
  show "emis_in_range lo'"
  proof (cases "payment_id p = None")
    case False
    with a show ?thesis by (auto simp: Payment_save_with_pk)
  next
    case True
    from a obtain rb te where rb: "remaining_balance lo = Some rb" and te: "total_emis lo = Some te"
      by (auto simp: derived_set_def)
    from a have sv: "Payment_save lo p = Inr (lo', p')" and d: "derived_set lo" by simp_all
    from Payment_save_new_fields [OF True sv rb] d obtain ep ep' where
      ep: "emis_after lo p = Inr ep"
      and ep': "(if rb - amount p \<le> 1 then total_emis lo else Some ep) = Some ep'"
      and e: "emis_paid lo' = ep'" and t: "total_emis lo' = total_emis lo"
      by blast
    from emis_after_in_range [OF _ _ ep te] a have "0 \<le> ep \<and> ep \<le> te" by simp
    moreover from a te have "0 \<le> te" by (auto simp: emis_in_range_def)
    ultimately show ?thesis using ep' e t te
      by (auto simp: emis_in_range_def split: if_splits)
  qed
qed

text \<open>The creation of the loan of 100.00 and an instalment on it.\<close>

theorem emis_paid_in_range_witness:
  "Loan_save False (new_loan \<lparr>req_customer_id = ''C1'', req_principal_amount = 10000,
      req_loan_period_years = 1, req_interest_rate = 0\<rparr>) = Inr loan_100 \<and>
   emis_in_range loan_100 \<and> derived_set loan_100 \<and> 0 \<le> amount (pay None EMI 833) \<and>
   Payment_save loan_100 (pay None EMI 833) =
     Inr (loan_100\<lparr>amount_paid := 833, remaining_balance := Some 9167, emis_paid := 1\<rparr>,
          (pay None EMI 833)\<lparr>balance_after_payment := 9167\<rparr>) \<and>
   emis_in_range (loan_100\<lparr>amount_paid := 833, remaining_balance := Some 9167, emis_paid := 1\<rparr>)"
proof -
  let ?r = "\<lparr>req_customer_id = ''C1'', req_principal_amount = 10000,
      req_loan_period_years = 1, req_interest_rate = 0\<rparr>"
  let ?L' = "loan_100\<lparr>amount_paid := 833, remaining_balance := Some 9167, emis_paid := 1\<rparr>"
  let ?P = "pay None EMI 833"
  let ?P' = "?P\<lparr>balance_after_payment := 9167\<rparr>"
  have cr: "Loan_save False (new_loan ?r) = Inr loan_100"
    by (simp add: Loan_save_def new_loan_def Loan_calculate_def clean_defs loan_100_def
        round_half_up_def quantize_cents_def)
  have d: "derived_set loan_100" and a: "0 \<le> amount ?P"
    by (simp_all add: eval_defs)
  have sv: "Payment_save loan_100 ?P = Inr (?L', ?P')"
    by (simp add: eval_defs)
  from emis_paid_in_range [of ?r loan_100 loan_100 ?P ?L' ?P'] cr
  have 1: "emis_in_range loan_100" by blast
  from emis_paid_in_range [of ?r loan_100 loan_100 ?P ?L' ?P'] 1 d a sv
  have 2: "emis_in_range ?L'" by blast
  from cr 1 d a sv 2 show ?thesis by blast
qed

subsection \<open>No division by zero\<close>

text \<open>
  C10 (amended). \<open>Payment_save\<close> never raises DivisionByZero. When the new-payment
  branch accepts a lump sum on a loan whose instalment amount is not positive, the branch
  on the payment type keeps the instalments paid, and they are unchanged afterwards unless
  the payment leaves at most 0.01: then the completion check sets them to
  \<open>total_emis\<close>.
\<close>

theorem lump_sum_division_guarded:
  "Payment_save lo p \<noteq> Inl DivisionByZero \<and>
   (payment_id p = None \<and> payment_type p = LUMP_SUM \<and> monthly_emi lo = Some me \<and>
    \<not> 0 < me \<and> remaining_balance lo = Some rb \<and> Payment_save lo p = Inr (lo', p')
      \<longrightarrow> emis_after lo p = Inr (emis_paid lo) \<and>
          Some (emis_paid lo') =
            (if rb - amount p \<le> 1 then total_emis lo else Some (emis_paid lo)))"
proof -
  from Loan_save_skip have "Loan_save True l \<noteq> Inl e" for l e
    by (metis Inl_Inr_False)
  then have 1: "Payment_save lo p \<noteq> Inl DivisionByZero"
    using emis_after_not_DivisionByZero [of lo p]
    by (auto simp: Payment_save_def Let_def split: option.splits sum.splits)
  have 2: "emis_after lo p = Inr (emis_paid lo) \<and>
          Some (emis_paid lo') =
            (if rb - amount p \<le> 1 then total_emis lo else Some (emis_paid lo))"
    if pk: "payment_id p = None" and t: "payment_type p = LUMP_SUM"
      and me: "monthly_emi lo = Some me" "\<not> 0 < me"
      and rb: "remaining_balance lo = Some rb" and sv: "Payment_save lo p = Inr (lo', p')"
  proof -
    from Payment_save_new_fields [OF pk sv rb] obtain ep ep' where
      ep: "emis_after lo p = Inr ep"
      and ep': "(if rb - amount p \<le> 1 then total_emis lo else Some ep) = Some ep'"
      and e: "emis_paid lo' = ep'"
      by blast
    from emis_after_lump_sum(1) [OF t me(1) ep me(2)] have "ep = emis_paid lo" .
    with ep ep' e show ?thesis by (simp split: if_splits)
  qed
  from 1 2 show ?thesis by blast
qed

text \<open>A lump sum of 0.02 on the loan of 0.05, whose instalment is 0.00.\<close>

theorem lump_sum_division_guarded_witness:
  "payment_id (pay None LUMP_SUM 2) = None \<and> payment_type (pay None LUMP_SUM 2) = LUMP_SUM \<and>
   monthly_emi loan_5c = Some 0 \<and> \<not> (0::int) < 0 \<and> remaining_balance loan_5c = Some 5 \<and>
   Payment_save loan_5c (pay None LUMP_SUM 2) =
     Inr (loan_5c\<lparr>amount_paid := 2, remaining_balance := Some 3\<rparr>,
          (pay None LUMP_SUM 2)\<lparr>balance_after_payment := 3\<rparr>) \<and>
   Payment_save loan_5c (pay None LUMP_SUM 2) \<noteq> Inl DivisionByZero \<and>
   emis_paid (loan_5c\<lparr>amount_paid := 2, remaining_balance := Some 3\<rparr>) = emis_paid loan_5c"
proof -
  let ?P = "pay None LUMP_SUM 2"
  have h: "payment_id ?P = None" "payment_type ?P = LUMP_SUM" "monthly_emi loan_5c = Some 0"
    "\<not> (0::int) < 0" "remaining_balance loan_5c = Some 5"
    by (simp_all add: eval_defs)
  have sv: "Payment_save loan_5c ?P =
     Inr (loan_5c\<lparr>amount_paid := 2, remaining_balance := Some 3\<rparr>,
          ?P\<lparr>balance_after_payment := 3\<rparr>)"
    by (simp add: eval_defs)
  from lump_sum_division_guarded [of loan_5c ?P 0 5
         "loan_5c\<lparr>amount_paid := 2, remaining_balance := Some 3\<rparr>"
         "?P\<lparr>balance_after_payment := 3\<rparr>"] h sv
  have "Payment_save loan_5c ?P \<noteq> Inl DivisionByZero \<and>
        emis_paid (loan_5c\<lparr>amount_paid := 2, remaining_balance := Some 3\<rparr>) = emis_paid loan_5c"
    by (simp add: pay_def)
  with h sv show ?thesis by simp
qed

text \<open>
  As first stated, without the exception, the property fails: a lump sum of 0.04 on that
  loan completes it with twelve instalments paid.
\<close>

theorem lump_sum_division_guarded_counterexample:
  "monthly_emi loan_5c = Some 0 \<and>
   Payment_save loan_5c (pay None LUMP_SUM 4) =
     Inr (loan_5c\<lparr>amount_paid := 4, remaining_balance := Some 0, emis_paid := 12,
                   loan_status := COMPLETED\<rparr>, pay None LUMP_SUM 4) \<and>
   emis_paid (loan_5c\<lparr>amount_paid := 4, remaining_balance := Some 0, emis_paid := 12,
                   loan_status := COMPLETED\<rparr>) \<noteq> emis_paid loan_5c"
  by (simp add: eval_defs)

end
